theory Spec2Isabelle
  imports Main "HOL-Library.Sublist"
begin

section \<open>Python strings and the Unicode database\<close>

text \<open>
  A Python \<^verbatim>\<open>str\<close> is a sequence of code points; \<open>lit\<close> turns an ASCII
  literal of the source into one.
\<close>

type_synonym codepoint = nat
type_synonym pystr = "codepoint list"

definition lit :: "string \<Rightarrow> pystr" where
  "lit s = map of_char s"

text \<open>
  The general categories \<^verbatim>\<open>unicodedata.category\<close> can return, with their
  two-letter names.
\<close>

datatype general_category =
    Lu | Ll | Lt | Lm | Lo
  | Mn | Mc | Me
  | Nd | Nl | No
  | Pc | Pd | Ps | Pe | Pi | Pf | Po
  | Sm | Sc | Sk | So
  | Zs | Zl | Zp
  | Cc | Cf | Cs | Co | Cn

fun category_name :: "general_category \<Rightarrow> string" where
  "category_name Lu = ''Lu''" | "category_name Ll = ''Ll''" | "category_name Lt = ''Lt''"
| "category_name Lm = ''Lm''" | "category_name Lo = ''Lo''"
| "category_name Mn = ''Mn''" | "category_name Mc = ''Mc''" | "category_name Me = ''Me''"
| "category_name Nd = ''Nd''" | "category_name Nl = ''Nl''" | "category_name No = ''No''"
| "category_name Pc = ''Pc''" | "category_name Pd = ''Pd''" | "category_name Ps = ''Ps''"
| "category_name Pe = ''Pe''" | "category_name Pi = ''Pi''" | "category_name Pf = ''Pf''"
| "category_name Po = ''Po''"
| "category_name Sm = ''Sm''" | "category_name Sc = ''Sc''" | "category_name Sk = ''Sk''"
| "category_name So = ''So''"
| "category_name Zs = ''Zs''" | "category_name Zl = ''Zl''" | "category_name Zp = ''Zp''"
| "category_name Cc = ''Cc''" | "category_name Cf = ''Cf''" | "category_name Cs = ''Cs''"
| "category_name Co = ''Co''" | "category_name Cn = ''Cn''"

text \<open>
  The Unicode database is the standard library's, not the repository's: it is a parameter
  of the model. \<open>normalize_NFKD\<close> is \<^verbatim>\<open>unicodedata.normalize('NFKD', char)\<close> on
  one character; \<open>None\<close> stands for a raised exception, which the source catches.
\<close>

record unicodedata =
  category :: "codepoint \<Rightarrow> general_category"
  normalize_NFKD :: "codepoint \<Rightarrow> pystr option"

section \<open>extract\_pdf\_text.py: clean\_unicode\_text\<close>

text \<open>
  \<^verbatim>\<open>text.replace(old, new)\<close>: every non-overlapping occurrence of \<open>old\<close>, from
  the left; an empty \<open>old\<close> matches before every character and at the end.
\<close>

function str_replace :: "pystr \<Rightarrow> pystr \<Rightarrow> pystr \<Rightarrow> pystr" where
  "str_replace old new [] = (if old = [] then new else [])"
| "str_replace old new (c # cs) =
     (if old = [] then new @ concat (map (\<lambda>x. x # new) (c # cs))
      else if take (length old) (c # cs) = old
        then new @ str_replace old new (drop (length old) (c # cs))
      else c # str_replace old new cs)"
  by pat_completeness auto
termination
  by (relation "measure (\<lambda>(old, new, s). length s)") auto

text \<open>The \<^verbatim>\<open>replacements\<close> dict, in the order it is written and iterated.\<close>

definition replacements :: "(pystr \<times> pystr) list" where
  "replacements =
    [([0xF084], lit '' ''),
     ([0x02DA], [0xB0]),
     ([0xF0B0], [0xB0]),
     ([0x2019], [0x27]),
     ([0x201C], [0x22]),
     ([0x201D], [0x22]),
     ([0x2013], lit ''-''),
     ([0x2014], lit ''-''),
     ([0x00A0], lit '' '')]"

fun apply_replacements :: "(pystr \<times> pystr) list \<Rightarrow> pystr \<Rightarrow> pystr" where
  "apply_replacements [] text = text"
| "apply_replacements ((old_char, new_char) # rest) text =
     apply_replacements rest (str_replace old_char new_char text)"

text \<open>\<^verbatim>\<open>s.encode('ascii', 'ignore').decode('ascii')\<close>.\<close>

definition encode_ascii_ignore :: "pystr \<Rightarrow> pystr" where
  "encode_ascii_ignore s = filter (\<lambda>c. c < 128) s"

text \<open>What one iteration of the second loop appends to \<^verbatim>\<open>cleaned_chars\<close>.\<close>

definition clean_char :: "unicodedata \<Rightarrow> codepoint \<Rightarrow> pystr" where
  "clean_char ud char =
     (if char < 128 then [char]
      else if 160 \<le> char \<and> char < 256 then [char]
      else if category_name (category ud char) ! 0 \<in> set ''LNPSZ'' then
        (case normalize_NFKD ud char of
           None \<Rightarrow> lit '' ''
         | Some normalized \<Rightarrow>
             if length normalized = 1 \<and> normalized ! 0 < 256 then normalized
             else (let ascii_equiv = encode_ascii_ignore normalized
                   in if ascii_equiv \<noteq> [] then ascii_equiv else lit '' ''))
      else lit '' '')"

fun clean_loop :: "unicodedata \<Rightarrow> pystr \<Rightarrow> pystr list \<Rightarrow> pystr list" where
  "clean_loop ud [] cleaned_chars = cleaned_chars"
| "clean_loop ud (char # rest) cleaned_chars =
     clean_loop ud rest (cleaned_chars @ [clean_char ud char])"

definition clean_unicode_text :: "unicodedata \<Rightarrow> pystr \<Rightarrow> pystr" where
  "clean_unicode_text ud text =
     concat (clean_loop ud (apply_replacements replacements text) [])"

text \<open>
  Three facts of the Unicode Character Database that the statements below name as
  assumptions on the parameter: the code points 128 to 159 are controls (category Cc);
  compatibility decomposition never turns another character into one of them; and no
  decomposition is the no-break space alone, which itself decomposes to a space.
\<close>

definition c1_controls_are_Cc :: "unicodedata \<Rightarrow> bool" where
  "c1_controls_are_Cc ud = (\<forall>c. 128 \<le> c \<and> c < 160 \<longrightarrow> category ud c = Cc)"

definition nfkd_introduces_no_c1 :: "unicodedata \<Rightarrow> bool" where
  "nfkd_introduces_no_c1 ud =
     (\<forall>c d. normalize_NFKD ud c = Some [d] \<and> 128 \<le> d \<and> d < 160 \<longrightarrow> c = d)"

definition nfkd_never_nbsp :: "unicodedata \<Rightarrow> bool" where
  "nfkd_never_nbsp ud = (\<forall>c. normalize_NFKD ud c \<noteq> Some [0xA0])"

text \<open>
  A fragment of the database: KELVIN SIGN, LATIN SMALL LIGATURE FI, OHM SIGN,
  GREEK ANO TELEIA, NO-BREAK SPACE, ZERO WIDTH SPACE and the controls, as the
  database has them; every other code point is treated as unassigned and as its own
  decomposition.
\<close>

definition sample_unicodedata :: unicodedata where
  "sample_unicodedata =
     \<lparr> category = (\<lambda>c. if c = 0x212A then Lu else if c = 0xFB01 then Ll
                        else if c = 0x2126 then Lu else if c = 0x0387 then Po
                        else if c = 0xA0 then Zs else if c = 0x200B then Cf
                        else if c < 32 \<or> (127 \<le> c \<and> c < 160) then Cc else Cn),
       normalize_NFKD = (\<lambda>c. if c = 0x212A then Some [0x4B] else if c = 0xFB01 then Some [0x66, 0x69]
                        else if c = 0x2126 then Some [0x03A9] else if c = 0x0387 then Some [0xB7]
                        else if c = 0xA0 then Some [0x20] else Some [c]) \<rparr>"

section \<open>Python string helpers used by the extraction scripts\<close>

text \<open>
  \<^verbatim>\<open>str.isspace\<close> on one code point: the white-space set of CPython's Unicode
  tables (general category Zs or bidirectional class WS, B or S).
\<close>

definition py_isspace :: "codepoint \<Rightarrow> bool" where
  "py_isspace c =
     ((0x09 \<le> c \<and> c \<le> 0x0D) \<or> (0x1C \<le> c \<and> c \<le> 0x20) \<or> c = 0x85 \<or> c = 0xA0
      \<or> c = 0x1680 \<or> (0x2000 \<le> c \<and> c \<le> 0x200A) \<or> c = 0x2028 \<or> c = 0x2029
      \<or> c = 0x202F \<or> c = 0x205F \<or> c = 0x3000)"

text \<open>\<^verbatim>\<open>s.strip()\<close>: leading and trailing white space removed.\<close>

definition strip :: "pystr \<Rightarrow> pystr" where
  "strip s = rev (dropWhile py_isspace (rev (dropWhile py_isspace s)))"

text \<open>\<^verbatim>\<open>sep.join(parts)\<close>.\<close>

fun str_join :: "pystr \<Rightarrow> pystr list \<Rightarrow> pystr" where
  "str_join sep [] = []"
| "str_join sep [p] = p"
| "str_join sep (p # q # ps) = p @ sep @ str_join sep (q # ps)"

text \<open>The decimal rendering of a non-negative integer inside an f-string.\<close>

fun str_nat :: "nat \<Rightarrow> pystr" where
  "str_nat n = (if n < 10 then [48 + n] else str_nat (n div 10) @ [48 + n mod 10])"

declare str_nat.simps [simp del]

section \<open>The PDF collaborator and the environment of a run\<close>

text \<open>
  PyMuPDF is outside the repository. A run's environment fixes what the library and the
  file system answer: what each of the two existence checks says of a path, what
  \<^verbatim>\<open>fitz.open\<close> returns or raises,
  for every page index what \<^verbatim>\<open>load_page\<close> and \<^verbatim>\<open>get_text\<close> return or raise,
  the file size, the clock and the Unicode database. An exception carries its message
  (\<^verbatim>\<open>str(e)\<close>). The operations that may raise in the model are \<^verbatim>\<open>open\<close>,
  \<^verbatim>\<open>load_page\<close> (also written \<^verbatim>\<open>doc[i]\<close>), \<^verbatim>\<open>get_text\<close> and
  \<^verbatim>\<open>stat\<close>; reading the attributes \<^verbatim>\<open>metadata\<close> and \<^verbatim>\<open>page_count\<close> of an
  open handle and calling \<^verbatim>\<open>close\<close> return normally.

  The scripts test existence in two ways, and the two can disagree on one path.
  \<^verbatim>\<open>os.path.exists(p)\<close> (\<^verbatim>\<open>pymupdf_extractor.py\<close>) never raises.
  \<^verbatim>\<open>Path(p).exists()\<close> (\<^verbatim>\<open>pdf_extractor.py\<close>) first normalises the path, so it
  is true of the empty string (the current directory) and of an existing file's name
  followed by a slash, and it can raise \<^verbatim>\<open>OSError\<close>, for instance on a name that
  is too long. Each check is a field of its own.
\<close>

datatype exn = Exception pystr

fun str_of_exn :: "exn \<Rightarrow> pystr" where
  "str_of_exn (Exception msg) = msg"

datatype page = Page (get_text: "exn + pystr")

record document =
  metadata :: "string \<rightharpoonup> pystr"
  page_count :: nat
  load_page :: "nat \<Rightarrow> exn + page"

record world =
  os_path_exists :: "pystr \<Rightarrow> bool"
  pathlib_exists :: "pystr \<Rightarrow> exn + bool"
  fitz_open :: "pystr \<Rightarrow> exn + document"
  stat_st_size :: "pystr \<Rightarrow> exn + nat"
  now_isoformat :: pystr
  unicode_db :: unicodedata

text \<open>
  The method calls a run makes on the collaborator, in order. The handle of a run is
  closed exactly when \<open>Doc_close\<close> occurs in its list.
\<close>

datatype event = Fitz_open pystr | Load_page nat | Get_text nat | Doc_close

text \<open>
  JSON values; a Python dict literal is the association list of its items in the order
  written, read with \<open>map_of\<close>.
\<close>

datatype json =
    JNull | JBool bool | JInt int | JStr pystr
  | JList "json list" | JDict "(string \<times> json) list"

type_synonym result = "(string \<times> json) list"

text \<open>\<^verbatim>\<open>d.get(key, "")\<close> on the metadata mapping.\<close>

definition get_or_empty :: "(string \<rightharpoonup> pystr) \<Rightarrow> string \<Rightarrow> pystr" where
  "get_or_empty d key = (case d key of None \<Rightarrow> [] | Some v \<Rightarrow> v)"

section \<open>services/pymupdf\_extractor.py\<close>

definition pymupdf_failure :: "exn \<Rightarrow> result" where
  "pymupdf_failure e =
     [(''success'', JBool False), (''error'', JStr (str_of_exn e)), (''text'', JStr []),
      (''metadata'', JDict []), (''pages'', JList [])]"

text \<open>
  The page loop of \<^verbatim>\<open>extract_text_from_pdf\<close>; an exception leaves the loop with
  the operations made so far.
\<close>

fun pymupdf_pages ::
  "document \<Rightarrow> nat list \<Rightarrow> pystr \<Rightarrow> json list \<Rightarrow> event list
     \<Rightarrow> (exn + pystr \<times> json list) \<times> event list" where
  "pymupdf_pages doc [] full_text page_texts ops = (Inr (full_text, page_texts), ops)"
| "pymupdf_pages doc (page_num # rest) full_text page_texts ops =
     (case load_page doc page_num of
        Inl e \<Rightarrow> (Inl e, ops @ [Load_page page_num])
      | Inr pg \<Rightarrow>
          (case get_text pg of
             Inl e \<Rightarrow> (Inl e, ops @ [Load_page page_num, Get_text page_num])
           | Inr page_text \<Rightarrow>
               pymupdf_pages doc rest
                 (full_text @ ([10] @ lit ''=== PAGE '' @ str_nat (page_num + 1) @ lit '' ==='' @ [10])
                    @ page_text @ [10])
                 (page_texts @
                    [JDict [(''pageNumber'', JInt (int (page_num + 1))),
                            (''text'', JStr page_text),
                            (''charCount'', JInt (int (length page_text)))]])
                 (ops @ [Load_page page_num, Get_text page_num])))"

definition extract_text_from_pdf :: "world \<Rightarrow> pystr \<Rightarrow> result \<times> event list" where
  "extract_text_from_pdf w pdf_path =
     (if \<not> os_path_exists w pdf_path then
        ([(''success'', JBool False), (''error'', JStr (lit ''File not found: '' @ pdf_path)),
          (''text'', JStr []), (''metadata'', JDict [])], [])
      else
        (case fitz_open w pdf_path of
           Inl e \<Rightarrow> (pymupdf_failure e, [Fitz_open pdf_path])
         | Inr doc \<Rightarrow>
             (let md =
                [(''title'', JStr (get_or_empty (metadata doc) ''title'')),
                 (''author'', JStr (get_or_empty (metadata doc) ''author'')),
                 (''subject'', JStr (get_or_empty (metadata doc) ''subject'')),
                 (''creator'', JStr (get_or_empty (metadata doc) ''creator'')),
                 (''producer'', JStr (get_or_empty (metadata doc) ''producer'')),
                 (''creationDate'', JStr (get_or_empty (metadata doc) ''creationDate'')),
                 (''modDate'', JStr (get_or_empty (metadata doc) ''modDate'')),
                 (''pageCount'', JInt (int (page_count doc))),
                 (''extractionMethod'', JStr (lit ''PyMuPDF'')),
                 (''extractionTime'', JStr (now_isoformat w))]
              in case pymupdf_pages doc [0..<page_count doc] [] [] [Fitz_open pdf_path] of
                   (Inl e, ops) \<Rightarrow> (pymupdf_failure e, ops)
                 | (Inr (full_text, page_texts), ops) \<Rightarrow>
                     (let clean_text = encode_ascii_ignore (strip full_text)
                      in ([(''success'', JBool True), (''error'', JNull),
                           (''text'', JStr clean_text), (''metadata'', JDict md),
                           (''pages'', JList page_texts),
                           (''totalCharacters'', JInt (int (length clean_text))),
                           (''processingTime'', JStr (lit ''local''))],
                          ops @ [Doc_close])))))"

section \<open>services/pdf\_extractor.py\<close>

definition pdf_extractor_failure :: "exn \<Rightarrow> result" where
  "pdf_extractor_failure e =
     [(''success'', JBool False),
      (''error'', JStr (lit ''PDF extraction failed: '' @ str_of_exn e)),
      (''text'', JStr []), (''metadata'', JDict [])]"

fun pdf_extractor_pages ::
  "document \<Rightarrow> nat list \<Rightarrow> pystr \<Rightarrow> pystr list \<Rightarrow> event list
     \<Rightarrow> (exn + pystr \<times> pystr list) \<times> event list" where
  "pdf_extractor_pages doc [] full_text page_texts ops = (Inr (full_text, page_texts), ops)"
| "pdf_extractor_pages doc (page_num # rest) full_text page_texts ops =
     (case load_page doc page_num of
        Inl e \<Rightarrow> (Inl e, ops @ [Load_page page_num])
      | Inr pg \<Rightarrow>
          (case get_text pg of
             Inl e \<Rightarrow> (Inl e, ops @ [Load_page page_num, Get_text page_num])
           | Inr page_text \<Rightarrow>
               pdf_extractor_pages doc rest (full_text @ (page_text @ [10]))
                 (page_texts @ [page_text])
                 (ops @ [Load_page page_num, Get_text page_num])))"

text \<open>\<^verbatim>\<open>extract_pdf_text\<close> of \<^verbatim>\<open>pdf_extractor.py\<close>.\<close>

definition pdf_extractor_extract_pdf_text :: "world \<Rightarrow> pystr \<Rightarrow> result \<times> event list" where
  "pdf_extractor_extract_pdf_text w pdf_path =
     (case pathlib_exists w pdf_path of
        Inl e \<Rightarrow> (pdf_extractor_failure e, [])
      | Inr found \<Rightarrow>
          if \<not> found then
            ([(''success'', JBool False),
              (''error'', JStr (lit ''File not found: '' @ pdf_path)),
              (''text'', JStr []), (''metadata'', JDict [])], [])
          else
            (case fitz_open w pdf_path of
               Inl e \<Rightarrow> (pdf_extractor_failure e, [Fitz_open pdf_path])
             | Inr doc \<Rightarrow>
                 (case pdf_extractor_pages doc [0..<page_count doc] [] [] [Fitz_open pdf_path] of
                    (Inl e, ops) \<Rightarrow> (pdf_extractor_failure e, ops)
                  | (Inr (full_text, page_texts), ops) \<Rightarrow>
                      (case stat_st_size w pdf_path of
                         Inl e \<Rightarrow> (pdf_extractor_failure e, ops)
                       | Inr file_size \<Rightarrow>
                           ([(''success'', JBool True),
                             (''text'', JStr (strip full_text)),
                             (''totalCharacters'', JInt (int (length (strip full_text)))),
                             (''metadata'', JDict
                                [(''pageCount'', JInt (int (page_count doc))),
                                 (''fileSize'', JInt (int file_size)),
                                 (''extractionMethod'', JStr (lit ''PyMuPDF-Python'')),
                                 (''extractionTime'', JStr []),
                                 (''pages'', JList (map JStr page_texts))])],
                            ops @ [Doc_close])))))"

section \<open>extract\_pdf\_text.py: the page loop and the plain-text extractor\<close>

fun plain_pages ::
  "unicodedata \<Rightarrow> document \<Rightarrow> nat list \<Rightarrow> pystr list \<Rightarrow> event list
     \<Rightarrow> (exn + pystr list) \<times> event list" where
  "plain_pages ud doc [] text_parts ops = (Inr text_parts, ops)"
| "plain_pages ud doc (page_num # rest) text_parts ops =
     (case load_page doc page_num of
        Inl e \<Rightarrow> (Inl e, ops @ [Load_page page_num])
      | Inr pg \<Rightarrow>
          (case get_text pg of
             Inl e \<Rightarrow> (Inl e, ops @ [Load_page page_num, Get_text page_num])
           | Inr page_text \<Rightarrow>
               plain_pages ud doc rest
                 (if strip page_text \<noteq> [] then
                    text_parts @
                      [lit ''--- Page '' @ str_nat (page_num + 1) @ lit '' ---'' @ [10]
                         @ clean_unicode_text ud page_text]
                  else text_parts)
                 (ops @ [Load_page page_num, Get_text page_num])))"

text \<open>
  \<^verbatim>\<open>extract_pdf_text\<close> of \<^verbatim>\<open>extract_pdf_text.py\<close>: the returned string, the lines
  written to standard error and the collaborator operations made.
\<close>

definition extract_pdf_text :: "world \<Rightarrow> pystr \<Rightarrow> pystr \<times> pystr list \<times> event list" where
  "extract_pdf_text w pdf_path =
     (case fitz_open w pdf_path of
        Inl e \<Rightarrow> ([], [lit ''Error extracting PDF: '' @ str_of_exn e], [Fitz_open pdf_path])
      | Inr doc \<Rightarrow>
          (case plain_pages (unicode_db w) doc [0..<page_count doc] [] [Fitz_open pdf_path] of
             (Inl e, ops) \<Rightarrow> ([], [lit ''Error extracting PDF: '' @ str_of_exn e], ops)
           | (Inr text_parts, ops) \<Rightarrow>
               (str_join [10, 10] text_parts, [], ops @ [Doc_close])))"

section \<open>The three command-line entry points\<close>

datatype printed = Print_json result | Print_text pystr

record process =
  stdout :: "printed list"
  stderr :: "pystr list"
  exit_code :: nat
  collaborator_ops :: "event list"

definition pdf_extractor_main :: "world \<Rightarrow> pystr list \<Rightarrow> process" where
  "pdf_extractor_main w argv =
     (if length argv \<noteq> 2 then
        \<lparr> stdout = [Print_json
              [(''success'', JBool False),
               (''error'', JStr (lit ''Usage: python pdf_extractor.py <pdf_path>'')),
               (''text'', JStr []), (''metadata'', JDict [])]],
          stderr = [], exit_code = 1, collaborator_ops = [] \<rparr>
      else
        (case pdf_extractor_extract_pdf_text w (argv ! 1) of
           (res, ops) \<Rightarrow>
             \<lparr> stdout = [Print_json res], stderr = [], exit_code = 0,
               collaborator_ops = ops \<rparr>))"

definition extract_pdf_text_main :: "world \<Rightarrow> pystr list \<Rightarrow> process" where
  "extract_pdf_text_main w argv =
     (if length argv \<noteq> 2 then
        \<lparr> stdout = [],
          stderr = [lit ''Usage: python extract_pdf_text.py <pdf_file_path>''],
          exit_code = 1, collaborator_ops = [] \<rparr>
      else
        (case extract_pdf_text w (argv ! 1) of
           (extracted_text, errs, ops) \<Rightarrow>
             if extracted_text \<noteq> [] then
               \<lparr> stdout = [Print_text extracted_text], stderr = errs, exit_code = 0,
                 collaborator_ops = ops \<rparr>
             else
               \<lparr> stdout = [], stderr = errs @ [lit ''Failed to extract text from PDF''],
                 exit_code = 1, collaborator_ops = ops \<rparr>))"

definition pymupdf_extractor_main :: "world \<Rightarrow> pystr list \<Rightarrow> process" where
  "pymupdf_extractor_main w argv =
     (if length argv < 2 then
        \<lparr> stdout = [Print_json
              [(''success'', JBool False),
               (''error'', JStr (lit ''Usage: python pymupdf_extractor.py <pdf_path>''))]],
          stderr = [], exit_code = 1, collaborator_ops = [] \<rparr>
      else
        (case extract_text_from_pdf w (argv ! 1) of
           (res, ops) \<Rightarrow>
             \<lparr> stdout = [Print_json res], stderr = [], exit_code = 0,
               collaborator_ops = ops \<rparr>))"

section \<open>Predicates and sample environments used in the statements\<close>

text \<open>Every page of the document loads and yields its text.\<close>

definition page_readable :: "document \<Rightarrow> nat \<Rightarrow> bool" where
  "page_readable doc i =
     (case load_page doc i of
        Inl e \<Rightarrow> False
      | Inr pg \<Rightarrow> (case get_text pg of Inl e \<Rightarrow> False | Inr t \<Rightarrow> True))"

definition pages_readable :: "document \<Rightarrow> bool" where
  "pages_readable doc = list_all (page_readable doc) [0..<page_count doc]"

text \<open>The text of page \<open>i\<close> when it is readable.\<close>

definition page_text_of :: "document \<Rightarrow> nat \<Rightarrow> pystr" where
  "page_text_of doc i =
     (case load_page doc i of
        Inl e \<Rightarrow> []
      | Inr pg \<Rightarrow> (case get_text pg of Inl e \<Rightarrow> [] | Inr t \<Rightarrow> t))"

text \<open>The collaborator raises while opening the file or while reading one of its pages.\<close>

definition collaborator_raises :: "world \<Rightarrow> pystr \<Rightarrow> bool" where
  "collaborator_raises w pdf_path =
     (case fitz_open w pdf_path of Inl e \<Rightarrow> True | Inr doc \<Rightarrow> \<not> pages_readable doc)"

definition sample_document :: "pystr list \<Rightarrow> document" where
  "sample_document texts =
     \<lparr> metadata = [''title'' \<mapsto> lit ''Safety Data Sheet''],
       page_count = length texts,
       load_page = (\<lambda>i. if i < length texts then Inr (Page (Inr (texts ! i)))
                         else Inl (Exception (lit ''page not in document''))) \<rparr>"

text \<open>
  What \<^verbatim>\<open>Path(p).exists()\<close> answers, for the paths the runs below use, in a
  directory whose only entry is the file \<^verbatim>\<open>a.pdf\<close>: a name longer than 255
  characters raises \<^verbatim>\<open>OSError\<close>, and the file's name and the same name followed by
  a slash are found.
\<close>

definition sample_pathlib_exists :: "pystr \<Rightarrow> exn + bool" where
  "sample_pathlib_exists p =
     (if 255 < length p then
        Inl (Exception (lit ''[Errno 36] File name too long: '' @ [0x27] @ p @ [0x27]))
      else Inr (p = lit ''a.pdf'' \<or> p = lit ''a.pdf/''))"

text \<open>A file system holding one PDF, \<^verbatim>\<open>a.pdf\<close>, with the given page texts.\<close>

definition sample_world :: "pystr list \<Rightarrow> world" where
  "sample_world texts =
     \<lparr> os_path_exists = (\<lambda>p. p = lit ''a.pdf''),
       pathlib_exists = sample_pathlib_exists,
       fitz_open = (\<lambda>p. if p = lit ''a.pdf'' then Inr (sample_document texts)
                         else Inl (Exception (lit ''no such file: '' @ p))),
       stat_st_size = (\<lambda>p. if p = lit ''a.pdf'' then Inr 1024
                            else Inl (Exception (lit ''No such file or directory''))),
       now_isoformat = lit ''2024-01-01T00:00:00'',
       unicode_db = sample_unicodedata \<rparr>"

text \<open>A one-page document whose page loads but whose text cannot be read.\<close>

definition corrupt_document :: document where
  "corrupt_document =
     \<lparr> metadata = Map.empty, page_count = 1,
       load_page = (\<lambda>i. Inr (Page (Inl (Exception (lit ''cannot read page''))))) \<rparr>"

text \<open>The same file system, with that document as \<^verbatim>\<open>a.pdf\<close>.\<close>

definition corrupt_world :: world where
  "corrupt_world =
     \<lparr> os_path_exists = (\<lambda>p. p = lit ''a.pdf''),
       pathlib_exists = sample_pathlib_exists,
       fitz_open = (\<lambda>p. if p = lit ''a.pdf'' then Inr corrupt_document
                         else Inl (Exception (lit ''no such file: '' @ p))),
       stat_st_size = (\<lambda>p. if p = lit ''a.pdf'' then Inr 1024
                            else Inl (Exception (lit ''No such file or directory''))),
       now_isoformat = lit ''2024-01-01T00:00:00'',
       unicode_db = sample_unicodedata \<rparr>"

section \<open>The normalizer works character by character\<close>

lemma str_replace_single:
  "str_replace [k] new xs = concat (map (\<lambda>c. if c = k then new else [c]) xs)"
  by (induction xs) auto

lemma str_replace_single_append:
  "str_replace [k] new (xs @ ys) = str_replace [k] new xs @ str_replace [k] new ys"
  by (simp add: str_replace_single)

lemma apply_replacements_append:
  "list_all (\<lambda>r. length (fst r) = 1) rs \<Longrightarrow>
   apply_replacements rs (xs @ ys) = apply_replacements rs xs @ apply_replacements rs ys"
proof (induction rs arbitrary: xs ys)
  case Nil
  then show ?case by simp
next
  case (Cons r rs)
  obtain old new where r: "r = (old, new)" by (cases r)
  from Cons.prems obtain k where k: "old = [k]"
    by (auto simp: r length_Suc_conv)
  from Cons.prems have "list_all (\<lambda>r. length (fst r) = 1) rs" by simp
  then show ?case using Cons.IH by (simp add: r k str_replace_single_append)
qed

lemma table_append:
  "apply_replacements replacements (xs @ ys) =
     apply_replacements replacements xs @ apply_replacements replacements ys"
  by (rule apply_replacements_append) (simp add: replacements_def)

lemma table_char:
  "apply_replacements replacements [c] =
     (if c = 0xF084 then [32] else if c = 0x02DA then [0xB0] else if c = 0xF0B0 then [0xB0]
      else if c = 0x2019 then [0x27] else if c = 0x201C then [0x22] else if c = 0x201D then [0x22]
      else if c = 0x2013 then [45] else if c = 0x2014 then [45] else if c = 0xA0 then [32] else [c])"
  by (simp add: replacements_def lit_def)

lemma table_nil: "apply_replacements replacements [] = []"
  by (simp add: replacements_def)

lemma clean_loop_eq: "clean_loop ud xs acc = acc @ map (clean_char ud) xs"
  by (induction xs arbitrary: acc) auto

lemma clean_eq:
  "clean_unicode_text ud text = concat (map (clean_char ud) (apply_replacements replacements text))"
  by (simp add: clean_unicode_text_def clean_loop_eq)

lemma clean_append:
  "clean_unicode_text ud (xs @ ys) = clean_unicode_text ud xs @ clean_unicode_text ud ys"
  by (simp add: clean_eq table_append)

lemma clean_nil: "clean_unicode_text ud [] = []"
  by (simp add: clean_eq table_nil)

lemma clean_per_char:
  "clean_unicode_text ud s = concat (map (\<lambda>ch. clean_unicode_text ud [ch]) s)"
proof (induction s)
  case Nil
  show ?case by (simp add: clean_nil)
next
  case (Cons ch s)
  have "clean_unicode_text ud (ch # s) = clean_unicode_text ud ([ch] @ s)" by simp
  also have "\<dots> = clean_unicode_text ud [ch] @ clean_unicode_text ud s"
    by (rule clean_append)
  finally show ?case using Cons.IH by simp
qed

lemma clean_char_keep:
  "c < 128 \<or> (160 \<le> c \<and> c < 256) \<Longrightarrow> clean_char ud c = [c]"
  by (auto simp: clean_char_def)

lemma clean_char_range:
  assumes a: "c1_controls_are_Cc ud" and b: "nfkd_introduces_no_c1 ud"
    and x: "x \<in> set (clean_char ud c)"
  shows "x < 128 \<or> (160 \<le> x \<and> x < 256)"
proof (cases "c < 128 \<or> (160 \<le> c \<and> c < 256)")
  case True
  with x show ?thesis by (auto simp: clean_char_keep)
next
  case False
  show ?thesis
  proof (cases "category_name (category ud c) ! 0 \<in> set ''LNPSZ''")
    case notcat: False
    with False x show ?thesis by (auto simp: clean_char_def lit_def)
  next
    case cat: True
    have notC1: "\<not> (128 \<le> c \<and> c < 160)"
    proof
      assume "128 \<le> c \<and> c < 160"
      with a have "category ud c = Cc" by (simp add: c1_controls_are_Cc_def)
      with cat show False by simp
    qed
    show ?thesis
    proof (cases "normalize_NFKD ud c")
      case None
      with False cat x show ?thesis by (auto simp: clean_char_def lit_def)
    next
      case (Some n)
      show ?thesis
      proof (cases "length n = 1 \<and> n ! 0 < 256")
        case single: True
        then obtain d where n: "n = [d]" and d: "d < 256"
          by (cases n) auto
        from False cat Some n d x have xd: "x = d" by (auto simp: clean_char_def)
        have "\<not> (128 \<le> d \<and> d < 160)"
        proof
          assume "128 \<le> d \<and> d < 160"
          with b Some n have "c = d" by (auto simp: nfkd_introduces_no_c1_def)
          with notC1 \<open>128 \<le> d \<and> d < 160\<close> show False by simp
        qed
        with d xd show ?thesis by auto
      next
        case multi: False
        with False cat Some x show ?thesis
          by (auto simp: clean_char_def lit_def encode_ascii_ignore_def Let_def split: if_splits)
      qed
    qed
  qed
qed

lemma table_char_cases:
  "apply_replacements replacements [c] = [c] \<and> c \<noteq> 0xA0
   \<or> (\<exists>v. apply_replacements replacements [c] = [v] \<and> (v = 32 \<or> v = 0xB0 \<or> v = 0x27 \<or> v = 0x22 \<or> v = 45))"
  by (simp add: table_char)

lemma clean_single_range:
  assumes a: "c1_controls_are_Cc ud" and b: "nfkd_introduces_no_c1 ud"
    and x: "x \<in> set (clean_unicode_text ud [c])"
  shows "x < 128 \<or> (160 \<le> x \<and> x < 256)"
  using table_char_cases [of c] x clean_char_range [OF a b]
  by (auto simp: clean_eq)

lemma clean_range:
  assumes a: "c1_controls_are_Cc ud" and b: "nfkd_introduces_no_c1 ud"
    and x: "x \<in> set (clean_unicode_text ud text)"
  shows "x < 128 \<or> (160 \<le> x \<and> x < 256)"
proof -
  from x obtain ch where "ch \<in> set text" "x \<in> set (clean_unicode_text ud [ch])"
    by (subst (asm) clean_per_char) auto
  then show ?thesis using clean_single_range [OF a b] by blast
qed



lemma clean_char_not_nbsp:
  assumes c: "nfkd_never_nbsp ud" and ne: "ch \<noteq> 160"
  shows "160 \<notin> set (clean_char ud ch)"
proof (cases "normalize_NFKD ud ch")
  case None
  with ne show ?thesis by (auto simp: clean_char_def lit_def)
next
  case (Some n)
  from c Some have n160: "n \<noteq> [160]" by (auto simp: nfkd_never_nbsp_def)
  show ?thesis
  proof (cases "length n = 1 \<and> n ! 0 < 256")
    case True
    then obtain d where n: "n = [d]" and d: "d < 256" by (cases n) auto
    with n160 have "d \<noteq> 160" by simp
    with ne Some n d show ?thesis by (auto simp: clean_char_def lit_def)
  next
    case False
    with ne Some show ?thesis
      by (auto simp: clean_char_def lit_def encode_ascii_ignore_def Let_def split: if_splits)
  qed
qed

lemma clean_single_not_nbsp:
  assumes c: "nfkd_never_nbsp ud"
  shows "160 \<notin> set (clean_unicode_text ud [ch])"
proof (cases "apply_replacements replacements [ch] = [ch] \<and> ch \<noteq> 0xA0")
  case True
  then show ?thesis using clean_char_not_nbsp [OF c, of ch] by (simp add: clean_eq)
next
  case False
  with table_char_cases [of ch] obtain v where
    v: "apply_replacements replacements [ch] = [v]"
       "v = 32 \<or> v = 0xB0 \<or> v = 0x27 \<or> v = 0x22 \<or> v = 45" by blast
  then show ?thesis by (auto simp: clean_eq clean_char_keep)
qed

lemma clean_not_nbsp:
  assumes c: "nfkd_never_nbsp ud"
  shows "160 \<notin> set (clean_unicode_text ud s)"
proof
  assume "160 \<in> set (clean_unicode_text ud s)"
  then obtain ch where "160 \<in> set (clean_unicode_text ud [ch])"
    by (subst (asm) clean_per_char) auto
  with clean_single_not_nbsp [OF c] show False by blast
qed

lemma clean_single_keep:
  assumes "c < 128 \<or> (160 < c \<and> c < 256)"
  shows "clean_unicode_text ud [c] = [c]"
proof -
  from assms have "apply_replacements replacements [c] = [c]" by (auto simp: table_char)
  moreover from assms have "clean_char ud c = [c]" by (auto simp: clean_char_keep)
  ultimately show ?thesis by (simp add: clean_eq)
qed

lemma clean_fixed:
  "(\<forall>x \<in> set s. x < 128 \<or> (160 < x \<and> x < 256)) \<Longrightarrow> clean_unicode_text ud s = s"
proof (induction s)
  case Nil
  show ?case by (simp add: clean_nil)
next
  case (Cons x s)
  have "clean_unicode_text ud (x # s) = clean_unicode_text ud [x] @ clean_unicode_text ud s"
    using clean_append [of ud "[x]" s] by simp
  with Cons show ?case by (simp add: clean_single_keep)
qed

section \<open>When strip leaves nothing\<close>

lemma strip_empty_iff: "strip s = [] \<longleftrightarrow> list_all py_isspace s"
proof -
  have "strip s = [] \<longleftrightarrow> (\<forall>x \<in> set (dropWhile py_isspace s). py_isspace x)"
    by (simp add: strip_def dropWhile_eq_Nil_conv)
  also have "\<dots> \<longleftrightarrow> dropWhile py_isspace s = []"
  proof
    assume all: "\<forall>x \<in> set (dropWhile py_isspace s). py_isspace x"
    show "dropWhile py_isspace s = []"
    proof (rule ccontr)
      assume ne: "dropWhile py_isspace s \<noteq> []"
      then have "\<not> py_isspace (hd (dropWhile py_isspace s))" by (rule hd_dropWhile)
      moreover from ne have "hd (dropWhile py_isspace s) \<in> set (dropWhile py_isspace s)" by simp
      ultimately show False using all by blast
    qed
  next
    assume e: "dropWhile py_isspace s = []"
    show "\<forall>x \<in> set (dropWhile py_isspace s). py_isspace x" unfolding e by simp
  qed
  also have "\<dots> \<longleftrightarrow> list_all py_isspace s"
    by (simp add: dropWhile_eq_Nil_conv list_all_iff)
  finally show ?thesis .
qed

section \<open>The page loops\<close>



lemma pymupdf_pages_unreadable:
  "\<not> list_all (page_readable doc) idxs \<Longrightarrow>
   \<exists>e. fst (pymupdf_pages doc idxs ft pt ops) = Inl e"
  by (induction idxs arbitrary: ft pt ops) (auto simp: page_readable_def split: sum.splits)

lemma pdf_extractor_pages_unreadable:
  "\<not> list_all (page_readable doc) idxs \<Longrightarrow>
   \<exists>e. fst (pdf_extractor_pages doc idxs ft pt ops) = Inl e"
  by (induction idxs arbitrary: ft pt ops) (auto simp: page_readable_def split: sum.splits)

lemma pdf_extractor_pages_prefix:
  "\<exists>more. snd (pdf_extractor_pages doc idxs ft pt ops) = ops @ more"
  by (induction idxs arbitrary: ft pt ops) (auto split: sum.splits, (metis append.assoc)+)


lemma plain_pages_prefix:
  "\<exists>more. snd (plain_pages ud doc idxs parts ops) = ops @ more"
  by (induction idxs arbitrary: parts ops) (auto split: sum.splits, (metis append.assoc)+)


lemma plain_pages_readable:
  "list_all (page_readable doc) idxs \<Longrightarrow>
   fst (plain_pages ud doc idxs parts ops) =
     Inr (parts @ map (\<lambda>i. lit ''--- Page '' @ str_nat (i + 1) @ lit '' ---'' @ [10]
                              @ clean_unicode_text ud (page_text_of doc i))
                   (filter (\<lambda>i. \<not> list_all py_isspace (page_text_of doc i)) idxs))"
  by (induction idxs arbitrary: parts ops)
     (auto simp: page_readable_def page_text_of_def strip_empty_iff split: sum.splits)

section \<open>Runs on the sample environments\<close>

lemma sample_open: "fitz_open (sample_world ts) (lit ''a.pdf'') = Inr (sample_document ts)"
  by (simp add: sample_world_def)

lemma sample_exists: "os_path_exists (sample_world ts) (lit ''a.pdf'')"
  by (simp add: sample_world_def)

lemma sample_readable: "pages_readable (sample_document ts)"
  by (simp add: pages_readable_def page_readable_def sample_document_def list_all_iff)



lemma hello_pymupdf:
  "extract_text_from_pdf (sample_world [lit ''Hello'']) (lit ''a.pdf'') =
     ([(''success'', JBool True), (''error'', JNull),
       (''text'', JStr (lit ''=== PAGE 1 ==='' @ [10] @ lit ''Hello'')),
       (''metadata'', JDict
          [(''title'', JStr (lit ''Safety Data Sheet'')), (''author'', JStr []),
           (''subject'', JStr []), (''creator'', JStr []), (''producer'', JStr []),
           (''creationDate'', JStr []), (''modDate'', JStr []),
           (''pageCount'', JInt 1), (''extractionMethod'', JStr (lit ''PyMuPDF'')),
           (''extractionTime'', JStr (lit ''2024-01-01T00:00:00''))]),
       (''pages'', JList [JDict [(''pageNumber'', JInt 1), (''text'', JStr (lit ''Hello'')),
                                 (''charCount'', JInt 5)]]),
       (''totalCharacters'', JInt 20),
       (''processingTime'', JStr (lit ''local''))],
      [Fitz_open (lit ''a.pdf''), Load_page 0, Get_text 0, Doc_close])"
  by (simp add: extract_text_from_pdf_def sample_world_def sample_document_def lit_def
      strip_def py_isspace_def encode_ascii_ignore_def str_nat.simps get_or_empty_def)

lemma hello_pdf_extractor:
  "pdf_extractor_extract_pdf_text (sample_world [lit ''Hello'']) (lit ''a.pdf'') =
     ([(''success'', JBool True), (''text'', JStr (lit ''Hello'')),
       (''totalCharacters'', JInt 5),
       (''metadata'', JDict
          [(''pageCount'', JInt 1), (''fileSize'', JInt 1024),
           (''extractionMethod'', JStr (lit ''PyMuPDF-Python'')),
           (''extractionTime'', JStr []),
           (''pages'', JList [JStr (lit ''Hello'')])])],
      [Fitz_open (lit ''a.pdf''), Load_page 0, Get_text 0, Doc_close])"
  by (simp add: pdf_extractor_extract_pdf_text_def sample_world_def sample_pathlib_exists_def
      sample_document_def lit_def strip_def py_isspace_def)

lemma corrupt_open: "fitz_open corrupt_world (lit ''a.pdf'') = Inr corrupt_document"
  by (simp add: corrupt_world_def)

lemma corrupt_exists: "os_path_exists corrupt_world (lit ''a.pdf'')"
  by (simp add: corrupt_world_def)

lemma corrupt_unreadable: "\<not> pages_readable corrupt_document"
  by (simp add: pages_readable_def page_readable_def corrupt_document_def)

lemma corrupt_missing: "\<not> os_path_exists corrupt_world (lit ''b.pdf'')"
  by (simp add: corrupt_world_def lit_def)

lemma corrupt_plain_missing:
  "extract_pdf_text corrupt_world (lit ''b.pdf'') =
     ([], [lit ''Error extracting PDF: no such file: b.pdf''], [Fitz_open (lit ''b.pdf'')])"
  by (simp add: extract_pdf_text_def corrupt_world_def lit_def)

lemma corrupt_pdf_extractor:
  "pdf_extractor_extract_pdf_text corrupt_world (lit ''a.pdf'') =
     (pdf_extractor_failure (Exception (lit ''cannot read page'')),
      [Fitz_open (lit ''a.pdf''), Load_page 0, Get_text 0])"
  by (simp add: pdf_extractor_extract_pdf_text_def corrupt_world_def sample_pathlib_exists_def
      corrupt_document_def lit_def)

lemma corrupt_found: "pathlib_exists corrupt_world (lit ''a.pdf'') = Inr True"
  by (simp add: corrupt_world_def sample_pathlib_exists_def lit_def)

lemma corrupt_not_found: "pathlib_exists corrupt_world (lit ''b.pdf'') = Inr False"
  by (simp add: corrupt_world_def sample_pathlib_exists_def lit_def)

lemma corrupt_slash_missing: "\<not> os_path_exists corrupt_world (lit ''a.pdf/'')"
  by (simp add: corrupt_world_def lit_def)

lemma corrupt_slash_found: "pathlib_exists corrupt_world (lit ''a.pdf/'') = Inr True"
  by (simp add: corrupt_world_def sample_pathlib_exists_def lit_def)

lemma corrupt_slash_pdf_extractor:
  "pdf_extractor_extract_pdf_text corrupt_world (lit ''a.pdf/'') =
     (pdf_extractor_failure (Exception (lit ''no such file: a.pdf/'')),
      [Fitz_open (lit ''a.pdf/'')])"
  by (simp add: pdf_extractor_extract_pdf_text_def corrupt_world_def sample_pathlib_exists_def
      lit_def)

lemma corrupt_long_missing: "\<not> os_path_exists corrupt_world (replicate 300 97)"
proof
  assume "os_path_exists corrupt_world (replicate 300 97)"
  then have "replicate 300 (97::nat) = lit ''a.pdf''" by (simp add: corrupt_world_def)
  then have "length (replicate 300 (97::nat)) = length (lit ''a.pdf'')" by (rule arg_cong)
  then show False by (simp add: lit_def)
qed

lemma corrupt_long_raises:
  "pathlib_exists corrupt_world (replicate 300 97)
     = Inl (Exception (lit ''[Errno 36] File name too long: '' @ [0x27] @ replicate 300 97
                         @ [0x27]))"
  by (simp add: corrupt_world_def sample_pathlib_exists_def)

section \<open>Properties of clean\_unicode\_text\<close>



text \<open>
  Claim C4. Cleaning is idempotent: cleaning a cleaned string returns it unchanged. The
  first run leaves no key of the replacement table and no character outside the two
  pass-through ranges, given the two assumptions of C1 and that no decomposition is the
  no-break space alone.
\<close>

theorem clean_unicode_text_idempotent:
  assumes "c1_controls_are_Cc ud" and "nfkd_introduces_no_c1 ud" and "nfkd_never_nbsp ud"
  shows "clean_unicode_text ud (clean_unicode_text ud s) = clean_unicode_text ud s"
proof (rule clean_fixed, rule ballI)
  fix x assume x: "x \<in> set (clean_unicode_text ud s)"
  from clean_range [OF assms(1,2) x] clean_not_nbsp [OF assms(3), of s] x
  show "x < 128 \<or> (160 < x \<and> x < 256)" by (cases "x = 160") auto
qed

text \<open>A second run on the output of a first one, on the database fragment.\<close>

theorem clean_unicode_text_idempotent_witness:
  "c1_controls_are_Cc sample_unicodedata \<and> nfkd_introduces_no_c1 sample_unicodedata
   \<and> nfkd_never_nbsp sample_unicodedata
   \<and> clean_unicode_text sample_unicodedata [0x43, 0xA0, 0x212A, 0xFB01, 0x0387, 0x85, 0x2014]
      = [0x43, 0x20, 0x4B, 0x66, 0x69, 0xB7, 0x20, 0x2D]
   \<and> clean_unicode_text sample_unicodedata [0x43, 0x20, 0x4B, 0x66, 0x69, 0xB7, 0x20, 0x2D]
      = [0x43, 0x20, 0x4B, 0x66, 0x69, 0xB7, 0x20, 0x2D]"
proof -
  have a: "c1_controls_are_Cc sample_unicodedata"
    by (simp add: c1_controls_are_Cc_def sample_unicodedata_def)
  have b: "nfkd_introduces_no_c1 sample_unicodedata"
    by (simp add: nfkd_introduces_no_c1_def sample_unicodedata_def)
  have c: "nfkd_never_nbsp sample_unicodedata"
    by (simp add: nfkd_never_nbsp_def sample_unicodedata_def)
  have out: "clean_unicode_text sample_unicodedata [0x43, 0xA0, 0x212A, 0xFB01, 0x0387, 0x85, 0x2014]
      = [0x43, 0x20, 0x4B, 0x66, 0x69, 0xB7, 0x20, 0x2D]"
    by (simp add: clean_eq table_append table_char clean_char_def sample_unicodedata_def
        lit_def encode_ascii_ignore_def replacements_def)
  from clean_unicode_text_idempotent [OF a b c, of "[0x43, 0xA0, 0x212A, 0xFB01, 0x0387, 0x85, 0x2014]"]
  have "clean_unicode_text sample_unicodedata [0x43, 0x20, 0x4B, 0x66, 0x69, 0xB7, 0x20, 0x2D]
      = [0x43, 0x20, 0x4B, 0x66, 0x69, 0xB7, 0x20, 0x2D]"
    unfolding out .
  with a b c out show ?thesis by blast
qed

text \<open>
  Claim C5. A character with code point in [0,127] or [160,255] that is not a key of the
  replacement table is emitted unchanged, alone and between any two strings, whatever
  the Unicode database says.
\<close>

theorem clean_unicode_text_identity:
  assumes "c < 128 \<or> (160 \<le> c \<and> c < 256)" and "[c] \<notin> fst ` set replacements"
  shows "clean_unicode_text ud [c] = [c]
       \<and> clean_unicode_text ud (xs @ [c] @ ys)
           = clean_unicode_text ud xs @ [c] @ clean_unicode_text ud ys"
proof -
  from assms(2) have "c \<noteq> 160" by (auto simp: replacements_def)
  with assms(1) have one: "clean_unicode_text ud [c] = [c]" by (auto simp: clean_single_keep)
  have "clean_unicode_text ud (xs @ [c] @ ys)
          = clean_unicode_text ud xs @ clean_unicode_text ud [c] @ clean_unicode_text ud ys"
    by (simp only: clean_append)
  with one show ?thesis by simp
qed

text \<open>LATIN SMALL LETTER E WITH ACUTE between a curly quote and a control character.\<close>

theorem clean_unicode_text_identity_witness:
  "((0xE9::nat) < 128 \<or> (160 \<le> (0xE9::nat) \<and> (0xE9::nat) < 256))
   \<and> [0xE9] \<notin> fst ` set replacements
   \<and> clean_unicode_text sample_unicodedata [0xE9] = [0xE9]
   \<and> clean_unicode_text sample_unicodedata ([0x201C, 0x212A] @ [0xE9] @ [0x85, 0x2019])
       = clean_unicode_text sample_unicodedata [0x201C, 0x212A] @ [0xE9]
         @ clean_unicode_text sample_unicodedata [0x85, 0x2019]"
proof -
  have r: "(0xE9::nat) < 128 \<or> (160 \<le> (0xE9::nat) \<and> (0xE9::nat) < 256)" by simp
  have k: "[0xE9] \<notin> fst ` set replacements" by (simp add: replacements_def)
  from clean_unicode_text_identity [OF r k, of sample_unicodedata "[0x201C, 0x212A]" "[0x85, 0x2019]"]
  show ?thesis using r k by blast
qed

section \<open>Properties of the extractors and entry points\<close>




text \<open>
  Claim C3, as amended. For an existing one-page PDF whose page text is "Hello", the
  PyMuPDF JSON extractor succeeds with pageCount 1 in its metadata and one page record
  (pageNumber 1, text "Hello", charCount 5); its text field is the page marker line
  followed by the page text, and totalCharacters is the length of that field, 20.
\<close>

theorem single_page_hello:
  assumes "os_path_exists w pdf_path" and "fitz_open w pdf_path = Inr doc"
    and "page_count doc = 1" and "load_page doc 0 = Inr pg"
    and "get_text pg = Inr (lit ''Hello'')"
  shows "map_of (fst (extract_text_from_pdf w pdf_path)) ''success'' = Some (JBool True)
       \<and> (\<exists>md. map_of (fst (extract_text_from_pdf w pdf_path)) ''metadata'' = Some (JDict md)
               \<and> map_of md ''pageCount'' = Some (JInt 1))
       \<and> map_of (fst (extract_text_from_pdf w pdf_path)) ''pages''
           = Some (JList [JDict [(''pageNumber'', JInt 1), (''text'', JStr (lit ''Hello'')),
                                 (''charCount'', JInt 5)]])
       \<and> map_of (fst (extract_text_from_pdf w pdf_path)) ''text''
           = Some (JStr (lit ''=== PAGE 1 ==='' @ [10] @ lit ''Hello''))
       \<and> map_of (fst (extract_text_from_pdf w pdf_path)) ''totalCharacters'' = Some (JInt 20)"
  using assms
  by (simp add: extract_text_from_pdf_def lit_def strip_def py_isspace_def
      encode_ascii_ignore_def str_nat.simps)

text \<open>On the sample file totalCharacters is 20, not the 5 of the claim.\<close>

theorem single_page_hello_counterexample:
  "map_of (fst (extract_text_from_pdf (sample_world [lit ''Hello'']) (lit ''a.pdf'')))
      ''totalCharacters'' = Some (JInt 20)
   \<and> map_of (fst (extract_text_from_pdf (sample_world [lit ''Hello'']) (lit ''a.pdf'')))
      ''totalCharacters'' \<noteq> Some (JInt 5)"
  by (simp add: hello_pymupdf)

text \<open>The sample file system holds such a PDF.\<close>

theorem single_page_hello_witness:
  "os_path_exists (sample_world [lit ''Hello'']) (lit ''a.pdf'')
   \<and> fitz_open (sample_world [lit ''Hello'']) (lit ''a.pdf'') = Inr (sample_document [lit ''Hello''])
   \<and> page_count (sample_document [lit ''Hello'']) = 1
   \<and> load_page (sample_document [lit ''Hello'']) 0 = Inr (Page (Inr (lit ''Hello'')))
   \<and> get_text (Page (Inr (lit ''Hello''))) = Inr (lit ''Hello'')
   \<and> map_of (fst (extract_text_from_pdf (sample_world [lit ''Hello'']) (lit ''a.pdf'')))
        ''pages''
       = Some (JList [JDict [(''pageNumber'', JInt 1), (''text'', JStr (lit ''Hello'')),
                             (''charCount'', JInt 5)]])
   \<and> map_of (fst (extract_text_from_pdf (sample_world [lit ''Hello'']) (lit ''a.pdf'')))
        ''totalCharacters'' = Some (JInt 20)"
proof -
  have c: "page_count (sample_document [lit ''Hello'']) = 1"
    by (simp add: sample_document_def)
  have l: "load_page (sample_document [lit ''Hello'']) 0 = Inr (Page (Inr (lit ''Hello'')))"
    by (simp add: sample_document_def)
  have g: "get_text (Page (Inr (lit ''Hello''))) = Inr (lit ''Hello'')" by simp
  from single_page_hello [OF sample_exists sample_open c l g]
  show ?thesis using sample_exists sample_open c l g by blast
qed

text \<open>
  Claim C6, as amended. Where \<^verbatim>\<open>os.path.exists\<close> is false of the path,
  \<^verbatim>\<open>pymupdf_extractor.py\<close> returns the failure result (success false, error
  "File not found: " followed by the path, which therefore contains the path) without
  any collaborator operation. \<^verbatim>\<open>pdf_extractor.py\<close> asks \<^verbatim>\<open>Path(p).exists()\<close>
  instead: where that is false it returns the same failure result without any
  collaborator operation; where that raises it returns the failure result of its
  exception handler ("PDF extraction failed: " and the message), still without any
  collaborator operation; where that is true, as it can be of a path that
  \<^verbatim>\<open>os.path.exists\<close> calls missing, its first operation is \<^verbatim>\<open>fitz.open\<close> on the
  path. The plain-text extractor makes no existence check: its first operation is
  \<^verbatim>\<open>fitz.open\<close> on the path, and when that raises it returns the empty string after
  writing the collaborator's message to standard error.
\<close>

theorem missing_file_results:
  "(\<not> os_path_exists w pdf_path \<longrightarrow>
      extract_text_from_pdf w pdf_path
        = ([(''success'', JBool False),
            (''error'', JStr (lit ''File not found: '' @ pdf_path)),
            (''text'', JStr []), (''metadata'', JDict [])], []))
   \<and> (pathlib_exists w pdf_path = Inr False \<longrightarrow>
      pdf_extractor_extract_pdf_text w pdf_path
        = ([(''success'', JBool False),
            (''error'', JStr (lit ''File not found: '' @ pdf_path)),
            (''text'', JStr []), (''metadata'', JDict [])], []))
   \<and> (\<forall>e. pathlib_exists w pdf_path = Inl e \<longrightarrow>
      pdf_extractor_extract_pdf_text w pdf_path
        = ([(''success'', JBool False),
            (''error'', JStr (lit ''PDF extraction failed: '' @ str_of_exn e)),
            (''text'', JStr []), (''metadata'', JDict [])], []))
   \<and> (pathlib_exists w pdf_path = Inr True \<longrightarrow>
      (\<exists>more. snd (pdf_extractor_extract_pdf_text w pdf_path) = Fitz_open pdf_path # more))
   \<and> sublist pdf_path (lit ''File not found: '' @ pdf_path)
   \<and> (\<exists>more. snd (snd (extract_pdf_text w pdf_path)) = Fitz_open pdf_path # more)
   \<and> (\<forall>e. fitz_open w pdf_path = Inl e \<longrightarrow>
         extract_pdf_text w pdf_path
           = ([], [lit ''Error extracting PDF: '' @ str_of_exn e], [Fitz_open pdf_path]))"
proof (intro conjI allI impI)
  show "sublist pdf_path (lit ''File not found: '' @ pdf_path)"
    by (rule sublist_append_leftI)
next
  show "\<exists>more. snd (snd (extract_pdf_text w pdf_path)) = Fitz_open pdf_path # more"
  proof (cases "fitz_open w pdf_path")
    case (Inl e)
    then show ?thesis by (simp add: extract_pdf_text_def)
  next
    case (Inr doc)
    obtain more where
      "snd (plain_pages (unicode_db w) doc [0..<page_count doc] [] [Fitz_open pdf_path])
         = [Fitz_open pdf_path] @ more"
      using plain_pages_prefix by blast
    with Inr show ?thesis
      by (auto simp: extract_pdf_text_def split: prod.splits sum.splits)
  qed
next
  assume found: "pathlib_exists w pdf_path = Inr True"
  show "\<exists>more. snd (pdf_extractor_extract_pdf_text w pdf_path) = Fitz_open pdf_path # more"
  proof (cases "fitz_open w pdf_path")
    case (Inl e)
    with found show ?thesis by (simp add: pdf_extractor_extract_pdf_text_def)
  next
    case (Inr doc)
    obtain more where
      "snd (pdf_extractor_pages doc [0..<page_count doc] [] [] [Fitz_open pdf_path])
         = [Fitz_open pdf_path] @ more"
      using pdf_extractor_pages_prefix by blast
    with found Inr show ?thesis
      by (auto simp: pdf_extractor_extract_pdf_text_def split: prod.splits sum.splits)
  qed
qed (simp_all add: extract_text_from_pdf_def pdf_extractor_extract_pdf_text_def
      pdf_extractor_failure_def extract_pdf_text_def)

text \<open>
  The claim as stated fails twice on paths that \<^verbatim>\<open>os.path.exists\<close> calls missing:
  the plain-text extractor calls open on \<^verbatim>\<open>b.pdf\<close>, and \<^verbatim>\<open>pdf_extractor.py\<close>,
  whose own check finds \<^verbatim>\<open>a.pdf/\<close>, calls open on it.
\<close>

theorem missing_file_counterexample:
  "\<not> os_path_exists corrupt_world (lit ''b.pdf'')
   \<and> snd (snd (extract_pdf_text corrupt_world (lit ''b.pdf''))) = [Fitz_open (lit ''b.pdf'')]
   \<and> \<not> os_path_exists corrupt_world (lit ''a.pdf/'')
   \<and> snd (pdf_extractor_extract_pdf_text corrupt_world (lit ''a.pdf/''))
       = [Fitz_open (lit ''a.pdf/'')]"
  by (simp add: corrupt_missing corrupt_plain_missing corrupt_slash_missing
      corrupt_slash_pdf_extractor)

text \<open>
  The missing path \<^verbatim>\<open>b.pdf\<close>, a name of 300 characters and \<^verbatim>\<open>a.pdf/\<close> in the
  sample file system.
\<close>

theorem missing_file_results_witness:
  "\<not> os_path_exists corrupt_world (lit ''b.pdf'')
   \<and> extract_text_from_pdf corrupt_world (lit ''b.pdf'')
       = ([(''success'', JBool False),
           (''error'', JStr (lit ''File not found: '' @ lit ''b.pdf'')),
           (''text'', JStr []), (''metadata'', JDict [])], [])
   \<and> pathlib_exists corrupt_world (lit ''b.pdf'') = Inr False
   \<and> pdf_extractor_extract_pdf_text corrupt_world (lit ''b.pdf'')
       = ([(''success'', JBool False),
           (''error'', JStr (lit ''File not found: '' @ lit ''b.pdf'')),
           (''text'', JStr []), (''metadata'', JDict [])], [])
   \<and> \<not> os_path_exists corrupt_world (replicate 300 97)
   \<and> pathlib_exists corrupt_world (replicate 300 97)
       = Inl (Exception (lit ''[Errno 36] File name too long: '' @ [0x27] @ replicate 300 97
                           @ [0x27]))
   \<and> pdf_extractor_extract_pdf_text corrupt_world (replicate 300 97)
       = ([(''success'', JBool False),
           (''error'', JStr (lit ''PDF extraction failed: ''
                             @ lit ''[Errno 36] File name too long: '' @ [0x27]
                             @ replicate 300 97 @ [0x27])),
           (''text'', JStr []), (''metadata'', JDict [])], [])
   \<and> \<not> os_path_exists corrupt_world (lit ''a.pdf/'')
   \<and> pathlib_exists corrupt_world (lit ''a.pdf/'') = Inr True
   \<and> (\<exists>more. snd (pdf_extractor_extract_pdf_text corrupt_world (lit ''a.pdf/''))
              = Fitz_open (lit ''a.pdf/'') # more)
   \<and> fitz_open corrupt_world (lit ''b.pdf'') = Inl (Exception (lit ''no such file: b.pdf''))
   \<and> extract_pdf_text corrupt_world (lit ''b.pdf'')
       = ([], [lit ''Error extracting PDF: '' @ lit ''no such file: b.pdf''],
          [Fitz_open (lit ''b.pdf'')])"
proof -
  have o: "fitz_open corrupt_world (lit ''b.pdf'') = Inl (Exception (lit ''no such file: b.pdf''))"
    by (simp add: corrupt_world_def lit_def)
  from missing_file_results [of corrupt_world "lit ''b.pdf''"]
    missing_file_results [of corrupt_world "replicate 300 97"]
    missing_file_results [of corrupt_world "lit ''a.pdf/''"]
    o corrupt_missing corrupt_not_found corrupt_long_missing corrupt_long_raises
    corrupt_slash_missing corrupt_slash_found
  show ?thesis by simp
qed

text \<open>
  Claim C7, as amended. \<^verbatim>\<open>pdf_extractor.py\<close> and \<^verbatim>\<open>extract_pdf_text.py\<close>
  print their usage failure and exit with code 1, without calling the extractor, for
  every argument count other than one path. \<^verbatim>\<open>pymupdf_extractor.py\<close> does so only
  when no path is given; with one path or more it extracts from the first, ignores the
  rest and exits with code 0.
\<close>

theorem usage_errors:
  "(length argv \<noteq> 2 \<longrightarrow>
       pdf_extractor_main w argv
         = \<lparr> stdout = [Print_json
                 [(''success'', JBool False),
                  (''error'', JStr (lit ''Usage: python pdf_extractor.py <pdf_path>'')),
                  (''text'', JStr []), (''metadata'', JDict [])]],
             stderr = [], exit_code = 1, collaborator_ops = [] \<rparr>
     \<and> extract_pdf_text_main w argv
         = \<lparr> stdout = [],
             stderr = [lit ''Usage: python extract_pdf_text.py <pdf_file_path>''],
             exit_code = 1, collaborator_ops = [] \<rparr>)
   \<and> (length argv < 2 \<longrightarrow>
       pymupdf_extractor_main w argv
         = \<lparr> stdout = [Print_json
                 [(''success'', JBool False),
                  (''error'', JStr (lit ''Usage: python pymupdf_extractor.py <pdf_path>''))]],
             stderr = [], exit_code = 1, collaborator_ops = [] \<rparr>)
   \<and> (2 \<le> length argv \<longrightarrow>
       pymupdf_extractor_main w argv
         = \<lparr> stdout = [Print_json (fst (extract_text_from_pdf w (argv ! 1)))],
             stderr = [], exit_code = 0,
             collaborator_ops = snd (extract_text_from_pdf w (argv ! 1)) \<rparr>)"
  by (auto simp: pdf_extractor_main_def extract_pdf_text_main_def pymupdf_extractor_main_def
      split: prod.splits)

text \<open>With two path arguments \<^verbatim>\<open>pymupdf_extractor.py\<close> extracts and exits with 0.\<close>

theorem usage_errors_counterexample:
  "length [lit ''pymupdf_extractor.py'', lit ''a.pdf'', lit ''b.pdf''] \<noteq> 2
   \<and> exit_code (pymupdf_extractor_main (sample_world [lit ''Hello''])
        [lit ''pymupdf_extractor.py'', lit ''a.pdf'', lit ''b.pdf'']) = 0
   \<and> collaborator_ops (pymupdf_extractor_main (sample_world [lit ''Hello''])
        [lit ''pymupdf_extractor.py'', lit ''a.pdf'', lit ''b.pdf''])
       = [Fitz_open (lit ''a.pdf''), Load_page 0, Get_text 0, Doc_close]"
  by (simp add: pymupdf_extractor_main_def hello_pymupdf)

text \<open>No path argument, and two path arguments.\<close>

theorem usage_errors_witness:
  "length [lit ''prog''] \<noteq> 2 \<and> length [lit ''prog''] < 2
   \<and> exit_code (pdf_extractor_main (sample_world [lit ''Hello'']) [lit ''prog'']) = 1
   \<and> collaborator_ops (pdf_extractor_main (sample_world [lit ''Hello'']) [lit ''prog'']) = []
   \<and> exit_code (extract_pdf_text_main (sample_world [lit ''Hello'']) [lit ''prog'']) = 1
   \<and> collaborator_ops (extract_pdf_text_main (sample_world [lit ''Hello'']) [lit ''prog'']) = []
   \<and> exit_code (pymupdf_extractor_main (sample_world [lit ''Hello'']) [lit ''prog'']) = 1
   \<and> collaborator_ops (pymupdf_extractor_main (sample_world [lit ''Hello'']) [lit ''prog'']) = []
   \<and> 2 \<le> length [lit ''prog'', lit ''a.pdf'', lit ''b.pdf'']
   \<and> exit_code (pymupdf_extractor_main (sample_world [lit ''Hello''])
        [lit ''prog'', lit ''a.pdf'', lit ''b.pdf'']) = 0"
  using usage_errors [of "[lit ''prog'']" "sample_world [lit ''Hello'']"]
    usage_errors [of "[lit ''prog'', lit ''a.pdf'', lit ''b.pdf'']" "sample_world [lit ''Hello'']"]
  by simp

text \<open>
  Claim C8. When the collaborator raises while opening the file or while loading or
  reading one of its pages, each JSON extractor whose existence check let the run
  reach the collaborator returns exactly its failure
  result: success false, the exception's message as error, empty text and empty
  metadata (and an empty page list in the PyMuPDF extractor); nothing extracted so far
  is part of it.
\<close>

theorem collaborator_failure_result:
  assumes "collaborator_raises w pdf_path"
  shows "(os_path_exists w pdf_path \<longrightarrow>
            (\<exists>e. fst (extract_text_from_pdf w pdf_path)
               = [(''success'', JBool False), (''error'', JStr (str_of_exn e)),
                  (''text'', JStr []), (''metadata'', JDict []), (''pages'', JList [])]))
       \<and> (pathlib_exists w pdf_path = Inr True \<longrightarrow>
            (\<exists>e. fst (pdf_extractor_extract_pdf_text w pdf_path)
               = [(''success'', JBool False),
                  (''error'', JStr (lit ''PDF extraction failed: '' @ str_of_exn e)),
                  (''text'', JStr []), (''metadata'', JDict [])]))"
proof (cases "fitz_open w pdf_path")
  case (Inl e)
  then show ?thesis
    by (auto simp: extract_text_from_pdf_def pdf_extractor_extract_pdf_text_def
        pymupdf_failure_def pdf_extractor_failure_def)
next
  case (Inr doc)
  with assms have n: "\<not> list_all (page_readable doc) [0..<page_count doc]"
    by (simp add: collaborator_raises_def pages_readable_def)
  obtain e1 where e1:
    "fst (pymupdf_pages doc [0..<page_count doc] [] [] [Fitz_open pdf_path]) = Inl e1"
    using pymupdf_pages_unreadable [OF n] by blast
  obtain e2 where e2:
    "fst (pdf_extractor_pages doc [0..<page_count doc] [] [] [Fitz_open pdf_path]) = Inl e2"
    using pdf_extractor_pages_unreadable [OF n] by blast
  from Inr e1 have
    "os_path_exists w pdf_path \<Longrightarrow>
     fst (extract_text_from_pdf w pdf_path) = pymupdf_failure e1"
    by (auto simp: extract_text_from_pdf_def Let_def split: prod.splits sum.splits)
  moreover from Inr e2 have
    "pathlib_exists w pdf_path = Inr True \<Longrightarrow>
     fst (pdf_extractor_extract_pdf_text w pdf_path) = pdf_extractor_failure e2"
    by (auto simp: pdf_extractor_extract_pdf_text_def split: prod.splits sum.splits)
  ultimately show ?thesis
    by (auto simp: pymupdf_failure_def pdf_extractor_failure_def)
qed

text \<open>The document whose page text cannot be read.\<close>

theorem collaborator_failure_result_witness:
  "collaborator_raises corrupt_world (lit ''a.pdf'')
   \<and> os_path_exists corrupt_world (lit ''a.pdf'')
   \<and> pathlib_exists corrupt_world (lit ''a.pdf'') = Inr True
   \<and> (\<exists>e. fst (extract_text_from_pdf corrupt_world (lit ''a.pdf''))
               = [(''success'', JBool False), (''error'', JStr (str_of_exn e)),
                  (''text'', JStr []), (''metadata'', JDict []), (''pages'', JList [])])
   \<and> (\<exists>e. fst (pdf_extractor_extract_pdf_text corrupt_world (lit ''a.pdf''))
               = [(''success'', JBool False),
                  (''error'', JStr (lit ''PDF extraction failed: '' @ str_of_exn e)),
                  (''text'', JStr []), (''metadata'', JDict [])])"
proof -
  have r: "collaborator_raises corrupt_world (lit ''a.pdf'')"
    by (simp add: collaborator_raises_def corrupt_open corrupt_unreadable)
  from collaborator_failure_result [OF r] corrupt_exists corrupt_found r
  show ?thesis by blast
qed

text \<open>
  Claim C9. In every success result of the two JSON extractors, totalCharacters is the
  length of the text field of the same result.
\<close>

theorem total_characters_is_text_length:
  "(map_of (fst (extract_text_from_pdf w pdf_path)) ''success'' = Some (JBool True) \<longrightarrow>
      (\<exists>t. map_of (fst (extract_text_from_pdf w pdf_path)) ''text'' = Some (JStr t)
          \<and> map_of (fst (extract_text_from_pdf w pdf_path)) ''totalCharacters''
              = Some (JInt (int (length t)))))
   \<and> (map_of (fst (pdf_extractor_extract_pdf_text w pdf_path)) ''success'' = Some (JBool True) \<longrightarrow>
      (\<exists>t. map_of (fst (pdf_extractor_extract_pdf_text w pdf_path)) ''text'' = Some (JStr t)
          \<and> map_of (fst (pdf_extractor_extract_pdf_text w pdf_path)) ''totalCharacters''
              = Some (JInt (int (length t)))))"
  by (auto simp: extract_text_from_pdf_def pdf_extractor_extract_pdf_text_def
      pymupdf_failure_def pdf_extractor_failure_def Let_def
      split: prod.splits sum.splits)

text \<open>Both extractors succeed on the sample file.\<close>

theorem total_characters_is_text_length_witness:
  "map_of (fst (extract_text_from_pdf (sample_world [lit ''Hello'']) (lit ''a.pdf'')))
      ''success'' = Some (JBool True)
   \<and> (\<exists>t. map_of (fst (extract_text_from_pdf (sample_world [lit ''Hello'']) (lit ''a.pdf'')))
            ''text'' = Some (JStr t)
          \<and> map_of (fst (extract_text_from_pdf (sample_world [lit ''Hello'']) (lit ''a.pdf'')))
              ''totalCharacters'' = Some (JInt (int (length t))))
   \<and> map_of (fst (pdf_extractor_extract_pdf_text (sample_world [lit ''Hello'']) (lit ''a.pdf'')))
      ''success'' = Some (JBool True)
   \<and> (\<exists>t. map_of (fst (pdf_extractor_extract_pdf_text (sample_world [lit ''Hello''])
                         (lit ''a.pdf''))) ''text'' = Some (JStr t)
          \<and> map_of (fst (pdf_extractor_extract_pdf_text (sample_world [lit ''Hello''])
                         (lit ''a.pdf''))) ''totalCharacters'' = Some (JInt (int (length t))))"
proof -
  have s1: "map_of (fst (extract_text_from_pdf (sample_world [lit ''Hello'']) (lit ''a.pdf'')))
      ''success'' = Some (JBool True)"
    by (simp add: hello_pymupdf)
  have s2: "map_of (fst (pdf_extractor_extract_pdf_text (sample_world [lit ''Hello''])
      (lit ''a.pdf''))) ''success'' = Some (JBool True)"
    by (simp add: hello_pdf_extractor)
  from total_characters_is_text_length [of "sample_world [lit ''Hello'']" "lit ''a.pdf''"] s1 s2
  show ?thesis by blast
qed

text \<open>
  Claim C10. When every page can be read, the plain-text extractor returns the parts of
  exactly those pages whose text is not empty and not white space only, each part the
  marker line of the page's own number followed by its cleaned text, joined by blank
  lines. A page whose text is empty or white space contributes nothing, its marker
  included, and the numbers of the markers that remain keep their gaps.
\<close>

theorem blank_pages_omitted:
  assumes "fitz_open w pdf_path = Inr doc" and "pages_readable doc"
  shows "fst (extract_pdf_text w pdf_path)
           = str_join [10, 10]
               (map (\<lambda>i. lit ''--- Page '' @ str_nat (i + 1) @ lit '' ---'' @ [10]
                           @ clean_unicode_text (unicode_db w) (page_text_of doc i))
                    (filter (\<lambda>i. \<not> list_all py_isspace (page_text_of doc i))
                            [0..<page_count doc]))"
proof -
  from assms(2) have "list_all (page_readable doc) [0..<page_count doc]"
    by (simp add: pages_readable_def)
  from plain_pages_readable [OF this, of "unicode_db w" "[]" "[Fitz_open pdf_path]"] assms(1)
  show ?thesis
    by (auto simp: extract_pdf_text_def split: prod.splits sum.splits)
qed

text \<open>Three pages, the second blank: the markers are those of pages 1 and 3.\<close>

theorem blank_pages_omitted_witness:
  "fitz_open (sample_world [lit ''A'', lit '' '', lit ''B'']) (lit ''a.pdf'')
     = Inr (sample_document [lit ''A'', lit '' '', lit ''B''])
   \<and> pages_readable (sample_document [lit ''A'', lit '' '', lit ''B''])
   \<and> list_all py_isspace (page_text_of (sample_document [lit ''A'', lit '' '', lit ''B'']) 1)
   \<and> fst (extract_pdf_text (sample_world [lit ''A'', lit '' '', lit ''B'']) (lit ''a.pdf''))
       = lit ''--- Page 1 ---'' @ [10] @ lit ''A'' @ [10, 10]
         @ lit ''--- Page 3 ---'' @ [10] @ lit ''B''"
proof -
  have b: "list_all py_isspace (page_text_of (sample_document [lit ''A'', lit '' '', lit ''B'']) 1)"
    by (simp add: page_text_of_def sample_document_def lit_def py_isspace_def)
  have "fst (extract_pdf_text (sample_world [lit ''A'', lit '' '', lit ''B'']) (lit ''a.pdf''))
          = str_join [10, 10]
               (map (\<lambda>i. lit ''--- Page '' @ str_nat (i + 1) @ lit '' ---'' @ [10]
                           @ clean_unicode_text (unicode_db (sample_world [lit ''A'', lit '' '', lit ''B'']))
                               (page_text_of (sample_document [lit ''A'', lit '' '', lit ''B'']) i))
                    (filter (\<lambda>i. \<not> list_all py_isspace
                                      (page_text_of (sample_document [lit ''A'', lit '' '', lit ''B'']) i))
                            [0..<page_count (sample_document [lit ''A'', lit '' '', lit ''B''])]))"
    by (rule blank_pages_omitted [OF sample_open sample_readable])
  also have "\<dots> = lit ''--- Page 1 ---'' @ [10] @ lit ''A'' @ [10, 10]
         @ lit ''--- Page 3 ---'' @ [10] @ lit ''B''"
    by (simp add: sample_world_def sample_document_def page_text_of_def lit_def py_isspace_def
        str_nat.simps upt_rec clean_eq table_append table_char clean_char_def)
  finally show ?thesis using sample_open sample_readable b by blast
qed

end
